theory Spec2Isabelle
  imports Main "HOL-Library.Sublist"
begin

section \<open>TrackingTime MCP server: the API client and the tool boundary\<close>

text \<open>
  A shallow embedding of \<^verbatim>\<open>api-client.ts\<close> (the module constants, \<^verbatim>\<open>apiRequest\<close>,
  \<^verbatim>\<open>rawApiRequest\<close>) and of the tool boundary of \<^verbatim>\<open>tools.ts\<close> (\<^verbatim>\<open>formatError\<close>,
  \<^verbatim>\<open>toolResult\<close>, \<^verbatim>\<open>errorResult\<close> and the handlers' try/catch).

  Strings are byte lists (UTF-8). A thrown value is a value of the type \<open>thrown\<close>, and a
  function that can throw returns \<open>thrown + 'a\<close>, with \<open>Inl\<close> for the thrown value. The
  platform is an explicit argument: \<open>fetch\<close> maps the request to what the awaited call
  yields, and \<open>JSON_stringify\<close> is the serialiser.
\<close>

subsection \<open>Strings and numbers as JavaScript renders them\<close>

text \<open>Decimal rendering of an integral number, as a template literal interpolates it.\<close>

function string_of_nat :: "nat \<Rightarrow> string" where
  "string_of_nat n =
     (if n < 10 then [''0123456789'' ! n]
      else string_of_nat (n div 10) @ [''0123456789'' ! (n mod 10)])"
  by pat_completeness auto
termination
  by (relation "measure id") auto

declare string_of_nat.simps [simp del]

definition string_of_int :: "int \<Rightarrow> string" where
  "string_of_int i = (if i < 0 then ''-'' @ string_of_nat (nat (- i)) else string_of_nat (nat i))"

text \<open>\<^verbatim>\<open>s.includes(sub)\<close>: \<open>sub\<close> occurs in \<open>s\<close> as a contiguous run.\<close>

fun str_includes :: "string \<Rightarrow> string \<Rightarrow> bool" where
  "str_includes [] sub = (sub = [])"
| "str_includes (c # cs) sub = (prefix sub (c # cs) \<or> str_includes cs sub)"

text \<open>\<^verbatim>\<open>endpoint.replace(/^\//, "")\<close>: one slash at the start is removed, nothing else.\<close>

fun strip_leading_slash :: "string \<Rightarrow> string" where
  "strip_leading_slash [] = []"
| "strip_leading_slash (c # cs) = (if c = CHR ''/'' then cs else c # cs)"

subsection \<open>Base64 and the query-string serialiser\<close>

definition base64_alphabet :: string where
  "base64_alphabet = ''ABCDEFGHIJKLMNOPQRSTUVWXYZabcdefghijklmnopqrstuvwxyz0123456789+/''"

fun base64_bytes :: "nat list \<Rightarrow> string" where
  "base64_bytes [] = []"
| "base64_bytes [a] =
     [base64_alphabet ! (a div 4), base64_alphabet ! ((a mod 4) * 16), CHR ''='', CHR ''='']"
| "base64_bytes [a, b] =
     [base64_alphabet ! (a div 4), base64_alphabet ! ((a mod 4) * 16 + b div 16),
      base64_alphabet ! ((b mod 16) * 4), CHR ''='']"
| "base64_bytes (a # b # c # rest) =
     [base64_alphabet ! (a div 4), base64_alphabet ! ((a mod 4) * 16 + b div 16),
      base64_alphabet ! ((b mod 16) * 4 + c div 64), base64_alphabet ! (c mod 64)]
     @ base64_bytes rest"

text \<open>\<^verbatim>\<open>Buffer.from(s).toString("base64")\<close>\<close>

definition base64 :: "string \<Rightarrow> string" where
  "base64 s = base64_bytes (map of_char s)"

definition hex_digit :: "nat \<Rightarrow> char" where
  "hex_digit d = ''0123456789ABCDEF'' ! d"

definition urlencoded_plain :: "char \<Rightarrow> bool" where
  "urlencoded_plain c =
     (let n = (of_char c :: nat) in
      (48 \<le> n \<and> n \<le> 57) \<or> (65 \<le> n \<and> n \<le> 90) \<or> (97 \<le> n \<and> n \<le> 122)
      \<or> c = CHR ''*'' \<or> c = CHR ''-'' \<or> c = CHR ''.'' \<or> c = CHR ''_'')"

definition urlencode_byte :: "char \<Rightarrow> string" where
  "urlencode_byte c =
     (if c = CHR '' '' then ''+''
      else if urlencoded_plain c then [c]
      else [CHR ''%'', hex_digit ((of_char c :: nat) div 16), hex_digit ((of_char c :: nat) mod 16)])"

definition urlencode :: "string \<Rightarrow> string" where
  "urlencode s = concat (map urlencode_byte s)"

fun join_amp :: "string list \<Rightarrow> string" where
  "join_amp [] = []"
| "join_amp [p] = p"
| "join_amp (p # q # ps) = p @ ''&'' @ join_amp (q # ps)"

text \<open>
  \<^verbatim>\<open>new URLSearchParams(params).toString()\<close>: the entries of the object in insertion
  order, each as \<open>name=value\<close>, form-urlencoded and joined by \<open>&\<close>.
\<close>

definition URLSearchParams_toString :: "(string \<times> string) list \<Rightarrow> string" where
  "URLSearchParams_toString params =
     join_amp (map (\<lambda>(k, v). urlencode k @ ''='' @ urlencode v) params)"

subsection \<open>Module constants of the API client\<close>

record env =
  TT_APP_PASSWORD :: "string option"
  TT_ACCOUNT_ID :: "string option"

record config =
  BASE_URL :: string
  AUTH_HEADER :: string

text \<open>
  What can be thrown: the client's own \<open>TrackingTimeError(status, message)\<close>, a
  \<open>DOMException\<close> (name, message), any other \<open>Error\<close> instance (its message), and a
  value that is not an \<open>Error\<close> (given by what \<open>String\<close> makes of it).
\<close>

datatype thrown =
    TrackingTimeError int string
  | DOMException string string
  | JsError string
  | NonError string

definition missing_env_message :: string where
  "missing_env_message =
     ''Missing required env vars: TT_APP_PASSWORD, TT_ACCOUNT_ID. '' @
     ''Create an App Password in TrackingTime: Manage '' @ [CHR 0xE2, CHR 0x86, CHR 0x92] @
     '' User Settings '' @ [CHR 0xE2, CHR 0x86, CHR 0x92] @ '' Apps & Integrations''"

text \<open>
  Evaluating the module: \<^verbatim>\<open>if (!TT_APP_PASSWORD || !TT_ACCOUNT_ID) throw new Error(...)\<close>,
  where a variable that is unset or empty is falsy; otherwise the base URL and the
  Authorization header are fixed for the process.
\<close>

definition api_client_module :: "env \<Rightarrow> thrown + config" where
  "api_client_module e =
     (case TT_APP_PASSWORD e of
        None \<Rightarrow> Inl (JsError missing_env_message)
      | Some pw \<Rightarrow>
          if pw = [] then Inl (JsError missing_env_message)
          else (case TT_ACCOUNT_ID e of
                  None \<Rightarrow> Inl (JsError missing_env_message)
                | Some acct \<Rightarrow>
                    if acct = [] then Inl (JsError missing_env_message)
                    else Inr \<lparr>BASE_URL = ''https://app.trackingtime.co/api/v4/'' @ acct,
                              AUTH_HEADER = ''Basic '' @ base64 (''API_TOKEN:'' @ pw)\<rparr>))"

subsection \<open>Requests, responses and the envelope\<close>

datatype json =
    JNull
  | JBool bool
  | JNum int
  | JStr string
  | JArr "json list"
  | JObj "(string \<times> json) list"

text \<open>Truthiness of a value, for \<^verbatim>\<open>body && ...\<close>.\<close>

fun truthy :: "json \<Rightarrow> bool" where
  "truthy JNull = False"
| "truthy (JBool b) = b"
| "truthy (JNum n) = (n \<noteq> 0)"
| "truthy (JStr s) = (s \<noteq> [])"
| "truthy (JArr xs) = True"
| "truthy (JObj kvs) = True"

text \<open>
  \<open>interface TTResponse\<close>. The message is optional here: \<open>None\<close> is a message missing
  from the envelope, which \<open>||\<close> treats as it treats the empty string.
\<close>

record envelope_head =
  status :: int
  message :: "string option"

record TTResponse =
  response :: envelope_head
  data :: json

record RequestInit =
  req_method :: string
  req_headers :: "(string \<times> string) list"
  req_body :: "string option"

text \<open>
  A response whose body has arrived: the HTTP status, the content-type header if there
  is one, what \<open>res.text()\<close> yields, and what \<open>res.json()\<close> yields or throws.
\<close>

record Response =
  res_status :: nat
  res_content_type :: "string option"
  res_text :: string
  res_json :: "thrown + TTResponse"

definition res_ok :: "Response \<Rightarrow> bool" where
  "res_ok res = (200 \<le> res_status res \<and> res_status res \<le> 299)"

datatype fetch_outcome = Rejected thrown | Resolved Response

record runtime =
  fetch :: "string \<Rightarrow> RequestInit \<Rightarrow> fetch_outcome"
  JSON_stringify :: "json \<Rightarrow> nat \<Rightarrow> string"

subsection \<open>The API client\<close>

definition ERROR_HINTS :: "int \<Rightarrow> string option" where
  "ERROR_HINTS = map_of
     [(401, ''Check that your App Password is correct and hasn't been revoked.''),
      (403, ''Your account may not have permission for this action.''),
      (502, ''This usually means a timer is already running. '' @
            ''Use stop_running_task=true on tt_start_timer, or call tt_stop_timer first.'')]"

definition timeout_message :: string where
  "timeout_message = ''Request timed out after 30s. TrackingTime may be unavailable.''"

text \<open>\<^verbatim>\<open>err instanceof DOMException && err.name === "AbortError"\<close>\<close>

fun is_abort :: "thrown \<Rightarrow> bool" where
  "is_abort (DOMException name msg) = (name = ''AbortError'')"
| "is_abort _ = False"

text \<open>\<^verbatim>\<open>err instanceof Error ? err.message : String(err)\<close>\<close>

fun error_text :: "thrown \<Rightarrow> string" where
  "error_text (TrackingTimeError st msg) = msg"
| "error_text (DOMException name msg) = msg"
| "error_text (JsError msg) = msg"
| "error_text (NonError s) = s"

text \<open>The catch block around \<open>fetch\<close>, the same in both request functions.\<close>

definition transport_error :: "thrown \<Rightarrow> thrown" where
  "transport_error err =
     (if is_abort err then TrackingTimeError 0 timeout_message
      else TrackingTimeError 0 (''Network error: '' @ error_text err))"

definition request_url :: "config \<Rightarrow> string \<Rightarrow> (string \<times> string) list option \<Rightarrow> string" where
  "request_url cfg endpoint params =
     (let url = BASE_URL cfg @ ''/'' @ strip_leading_slash endpoint in
      case params of
        None \<Rightarrow> url
      | Some ps \<Rightarrow> if length ps > 0 then url @ ''?'' @ URLSearchParams_toString ps else url)"

definition request_headers :: "config \<Rightarrow> (string \<times> string) list" where
  "request_headers cfg =
     [(''Authorization'', AUTH_HEADER cfg),
      (''Content-Type'', ''application/json''),
      (''User-Agent'', ''TrackingTimeMCP/1.0'')]"

definition request_options :: "runtime \<Rightarrow> config \<Rightarrow> string \<Rightarrow> json option \<Rightarrow> RequestInit" where
  "request_options rt cfg method body =
     \<lparr>req_method = method, req_headers = request_headers cfg,
      req_body =
        (case body of
           None \<Rightarrow> None
         | Some b \<Rightarrow>
             if truthy b \<and> (method = ''POST'' \<or> method = ''PUT'')
             then Some (JSON_stringify rt b 0) else None)\<rparr>"

definition non_json_message :: "nat \<Rightarrow> string" where
  "non_json_message st =
     ''TrackingTime returned HTTP '' @ string_of_nat st @
     '' with non-JSON response. The service may be temporarily unavailable.''"

text \<open>The branch of \<open>apiRequest\<close> for an envelope whose status is not 200.\<close>

definition envelope_error :: "envelope_head \<Rightarrow> thrown" where
  "envelope_error h =
     (let apiMessage =
            (case message h of
               None \<Rightarrow> ''API error (status '' @ string_of_int (status h) @ '')''
             | Some m \<Rightarrow>
                 if m \<noteq> [] then m
                 else ''API error (status '' @ string_of_int (status h) @ '')'');
          msg = (case ERROR_HINTS (status h) of
                   Some hint \<Rightarrow> apiMessage @ ''. '' @ hint
                 | None \<Rightarrow> apiMessage)
      in TrackingTimeError (status h) msg)"

text \<open>
  \<^verbatim>\<open>(res.headers.get("content-type") ?? "").includes("application/json")\<close>
\<close>

definition declares_json :: "Response \<Rightarrow> bool" where
  "declares_json res =
     str_includes (case res_content_type res of Some ct \<Rightarrow> ct | None \<Rightarrow> []) ''application/json''"

definition apiRequest ::
  "runtime \<Rightarrow> config \<Rightarrow> string \<Rightarrow> string \<Rightarrow> (string \<times> string) list option \<Rightarrow> json option
    \<Rightarrow> thrown + json" where
  "apiRequest rt cfg method endpoint params body =
     (let url = request_url cfg endpoint params;
          options = request_options rt cfg method body
      in case fetch rt url options of
           Rejected err \<Rightarrow> Inl (transport_error err)
         | Resolved res \<Rightarrow>
             if \<not> declares_json res
             then Inl (TrackingTimeError (int (res_status res))
                         (non_json_message (res_status res)))
             else (case res_json res of
                     Inl err \<Rightarrow> Inl err
                   | Inr json \<Rightarrow>
                       if status (response json) \<noteq> 200
                       then Inl (envelope_error (response json))
                       else Inr (data json)))"

definition rawApiRequest ::
  "runtime \<Rightarrow> config \<Rightarrow> string \<Rightarrow> string \<Rightarrow> (string \<times> string) list option
    \<Rightarrow> thrown + string" where
  "rawApiRequest rt cfg method endpoint params =
     (let url = request_url cfg endpoint params;
          options = request_options rt cfg method None
      in case fetch rt url options of
           Rejected err \<Rightarrow> Inl (transport_error err)
         | Resolved res \<Rightarrow>
             if \<not> res_ok res
             then Inl (TrackingTimeError (int (res_status res))
                         (''TrackingTime returned HTTP '' @ string_of_nat (res_status res)))
             else Inr (res_text res))"

subsection \<open>The tool boundary\<close>

record tool_result =
  content_text :: string
  isError :: bool

definition formatError :: "thrown \<Rightarrow> string" where
  "formatError err =
     (case err of
        TrackingTimeError st msg \<Rightarrow>
          ''TrackingTime API error ('' @ string_of_int st @ ''): '' @ msg
      | DOMException name msg \<Rightarrow> msg
      | JsError msg \<Rightarrow> msg
      | NonError s \<Rightarrow> s)"

definition toolResult :: "runtime \<Rightarrow> json \<Rightarrow> tool_result" where
  "toolResult rt d = \<lparr>content_text = JSON_stringify rt d 2, isError = False\<rparr>"

definition errorResult :: "thrown \<Rightarrow> tool_result" where
  "errorResult err = \<lparr>content_text = formatError err, isError = True\<rparr>"

text \<open>
  Every handler has one shape: \<^verbatim>\<open>try { return toolResult(await apiRequest(...)) }
  catch (err) { return errorResult(err) }\<close>. A handler is an async function, so its own
  result is again \<open>thrown + tool_result\<close>.
\<close>

definition tool_handler :: "runtime \<Rightarrow> thrown + json \<Rightarrow> thrown + tool_result" where
  "tool_handler rt awaited =
     (case awaited of
        Inr d \<Rightarrow> Inr (toolResult rt d)
      | Inl err \<Rightarrow> Inr (errorResult err))"

definition tt_list_projects :: "runtime \<Rightarrow> config \<Rightarrow> string option \<Rightarrow> thrown + tool_result" where
  "tt_list_projects rt cfg filter_opt =
     (let params = (case filter_opt of
                      None \<Rightarrow> []
                    | Some f \<Rightarrow> if f \<noteq> [] then [(''filter'', f)] else [])
      in tool_handler rt (apiRequest rt cfg ''GET'' ''/projects'' (Some params) None))"

record export_args =
  separator :: string
  filter_arg :: "string option"
  id_arg :: "int option"
  from_arg :: "string option"
  to_arg :: "string option"

definition export_params :: "export_args \<Rightarrow> (string \<times> string) list" where
  "export_params a =
     [(''separator'', separator a)]
     @ (case filter_arg a of Some f \<Rightarrow> if f \<noteq> [] then [(''filter'', f)] else [] | None \<Rightarrow> [])
     @ (case id_arg a of Some i \<Rightarrow> [(''id'', string_of_int i)] | None \<Rightarrow> [])
     @ (case from_arg a of Some d \<Rightarrow> if d \<noteq> [] then [(''from'', d)] else [] | None \<Rightarrow> [])
     @ (case to_arg a of Some d \<Rightarrow> if d \<noteq> [] then [(''to'', d)] else [] | None \<Rightarrow> [])"

definition tt_export_time_entries :: "runtime \<Rightarrow> config \<Rightarrow> export_args \<Rightarrow> thrown + tool_result" where
  "tt_export_time_entries rt cfg a =
     tool_handler rt (apiRequest rt cfg ''GET'' ''/events/export'' (Some (export_params a)) None)"

subsection \<open>Concrete inputs\<close>

text \<open>
  A configuration, and platforms that answer one expected request with a fixed outcome.
  None of the calls below reaches the serialiser.
\<close>

definition demo_env :: env where
  "demo_env = \<lparr>TT_APP_PASSWORD = Some ''pw'', TT_ACCOUNT_ID = Some ''42''\<rparr>"

definition demo_config :: config where
  "demo_config =
     \<lparr>BASE_URL = ''https://app.trackingtime.co/api/v4/42'',
      AUTH_HEADER = ''Basic QVBJX1RPS0VOOnB3''\<rparr>"

definition no_stringify :: "json \<Rightarrow> nat \<Rightarrow> string" where
  "no_stringify j indent = []"

definition answering :: "string \<Rightarrow> string \<Rightarrow> fetch_outcome \<Rightarrow> runtime" where
  "answering method url outcome =
     \<lparr>fetch = (\<lambda>u opts. if u = url \<and> req_method opts = method then outcome
                         else Rejected (JsError ''unexpected request'')),
      JSON_stringify = no_stringify\<rparr>"

definition json_response :: "string \<Rightarrow> TTResponse \<Rightarrow> Response" where
  "json_response txt env =
     \<lparr>res_status = 200, res_content_type = Some ''application/json;charset=UTF-8'',
      res_text = txt, res_json = Inr env\<rparr>"

definition demo_projects :: json where
  "demo_projects = JArr [JObj [(''id'', JNum 1), (''name'', JStr ''Demo'')]]"

definition projects_reply :: Response where
  \<open>projects_reply =
     json_response ''{"response":{"status":200,"message":"ok"},"data":[{"id":1,"name":"Demo"}]}''
       \<lparr>response = \<lparr>status = 200, message = Some ''ok''\<rparr>, data = demo_projects\<rparr>\<close>

definition tracking_reply :: Response where
  \<open>tracking_reply =
     json_response ''{"response":{"status":502,"message":"already tracking"},"data":null}''
       \<lparr>response = \<lparr>status = 502, message = Some ''already tracking''\<rparr>, data = JNull\<rparr>\<close>

definition not_found_reply :: Response where
  \<open>not_found_reply =
     json_response ''{"response":{"status":500,"message":"Project not found"},"data":null}''
       \<lparr>response = \<lparr>status = 500, message = Some ''Project not found''\<rparr>, data = JNull\<rparr>\<close>

definition empty_message_reply :: Response where
  \<open>empty_message_reply =
     json_response ''{"response":{"status":500,"message":""},"data":null}''
       \<lparr>response = \<lparr>status = 500, message = Some []\<rparr>, data = JNull\<rparr>\<close>

definition missing_message_reply :: Response where
  \<open>missing_message_reply =
     json_response ''{"response":{"status":401},"data":null}''
       \<lparr>response = \<lparr>status = 401, message = None\<rparr>, data = JNull\<rparr>\<close>

definition projects_url :: string where
  "projects_url = ''https://app.trackingtime.co/api/v4/42/projects''"

definition export_url :: string where
  "export_url = ''https://app.trackingtime.co/api/v4/42/events/export?separator=%2C''"

definition csv_body :: string where
  "csv_body = ''id,duration'' @ [CHR 0x0A] @ ''1,3600''"

definition csv_response :: Response where
  "csv_response =
     \<lparr>res_status = 200, res_content_type = Some ''text/csv'',
      res_text = csv_body, res_json = Inl (JsError ''Unexpected token i in JSON at position 0'')\<rparr>"

definition html_response :: "nat \<Rightarrow> Response" where
  "html_response st =
     \<lparr>res_status = st, res_content_type = Some ''text/html'',
      res_text = ''<html>Bad Gateway</html>'',
      res_json = Inl (JsError ''Unexpected token < in JSON at position 0'')\<rparr>"

definition export_comma :: export_args where
  "export_comma =
     \<lparr>separator = '','', filter_arg = None, id_arg = None, from_arg = None, to_arg = None\<rparr>"

definition track_url :: string where
  "track_url = ''https://app.trackingtime.co/api/v4/42/tasks/track/42''"

definition broken_json_reply :: Response where
  "broken_json_reply =
     \<lparr>res_status = 200, res_content_type = Some ''application/json'',
      res_text = ''{'', res_json = Inl (JsError ''Unexpected end of JSON input'')\<rparr>"

definition aborted :: thrown where
  "aborted = DOMException ''AbortError'' ''This operation was aborted''"

definition refused :: thrown where
  "refused = JsError ''fetch failed''"

section \<open>Properties\<close>

subsection \<open>Auxiliary facts\<close>

lemma str_includes_iff: "str_includes s sub \<longleftrightarrow> (\<exists>ps ss. s = ps @ sub @ ss)"
proof (induction s)
  case Nil
  then show ?case by auto
next
  case (Cons c cs)
  show ?case
  proof
    assume "str_includes (c # cs) sub"
    then consider "prefix sub (c # cs)" | "str_includes cs sub" by auto
    then show "\<exists>ps ss. c # cs = ps @ sub @ ss"
    proof cases
      case 1
      then obtain ss where "c # cs = sub @ ss" by (auto simp: prefix_def)
      then have "c # cs = [] @ sub @ ss" by simp
      then show ?thesis by blast
    next
      case 2
      with Cons.IH obtain ps ss where "cs = ps @ sub @ ss" by auto
      then have "c # cs = (c # ps) @ sub @ ss" by simp
      then show ?thesis by blast
    qed
  next
    assume "\<exists>ps ss. c # cs = ps @ sub @ ss"
    then obtain ps ss where eq: "c # cs = ps @ sub @ ss" by blast
    show "str_includes (c # cs) sub"
    proof (cases ps)
      case Nil
      with eq have "prefix sub (c # cs)" by (simp add: prefix_def)
      then show ?thesis by simp
    next
      case (Cons p ps')
      with eq have "cs = ps' @ sub @ ss" by simp
      with Cons.IH have "str_includes cs sub" by blast
      then show ?thesis by simp
    qed
  qed
qed

lemma ERROR_HINTS_dom: "(ERROR_HINTS s \<noteq> None) = (s = 401 \<or> s = 403 \<or> s = 502)"
  by (simp add: ERROR_HINTS_def)

lemma apiRequest_resolved:
  assumes "fetch rt (request_url cfg endpoint params) (request_options rt cfg method body) = Resolved res"
  shows "apiRequest rt cfg method endpoint params body =
           (if \<not> declares_json res
            then Inl (TrackingTimeError (int (res_status res)) (non_json_message (res_status res)))
            else (case res_json res of
                    Inl err \<Rightarrow> Inl err
                  | Inr json \<Rightarrow>
                      if status (response json) \<noteq> 200
                      then Inl (envelope_error (response json))
                      else Inr (data json)))"
  using assms by (simp add: apiRequest_def Let_def)

lemma apiRequest_rejected:
  assumes "fetch rt (request_url cfg endpoint params) (request_options rt cfg method body) = Rejected err"
  shows "apiRequest rt cfg method endpoint params body = Inl (transport_error err)"
  using assms by (simp add: apiRequest_def Let_def)

lemma rawApiRequest_resolved:
  assumes "fetch rt (request_url cfg endpoint params) (request_options rt cfg method None) = Resolved res"
  shows "rawApiRequest rt cfg method endpoint params =
           (if \<not> res_ok res
            then Inl (TrackingTimeError (int (res_status res))
                        (''TrackingTime returned HTTP '' @ string_of_nat (res_status res)))
            else Inr (res_text res))"
  using assms by (simp add: rawApiRequest_def Let_def)

lemma rawApiRequest_rejected:
  assumes "fetch rt (request_url cfg endpoint params) (request_options rt cfg method None) = Rejected err"
  shows "rawApiRequest rt cfg method endpoint params = Inl (transport_error err)"
  using assms by (simp add: rawApiRequest_def Let_def)


lemma answering_options:
  "fetch (answering method url outcome) url (request_options rt cfg method body) = outcome"
  by (simp add: answering_def request_options_def)

lemma projects_url_eq: "request_url demo_config ''/projects'' (Some []) = projects_url"
  by (simp add: request_url_def demo_config_def projects_url_def)

lemma export_url_eq: "request_url demo_config ''/events/export'' (Some (export_params export_comma)) = export_url"
  by (simp add: request_url_def demo_config_def export_url_def export_params_def export_comma_def
      URLSearchParams_toString_def urlencode_def urlencode_byte_def urlencoded_plain_def hex_digit_def)

lemma track_url_eq: "request_url demo_config ''/tasks/track/42'' None = track_url"
  by (simp add: request_url_def demo_config_def track_url_def)

lemma timeout_message_timed_out: "str_includes timeout_message ''timed out''"
  by (simp add: timeout_message_def)

lemma non_json_message_notes: "str_includes (non_json_message st) ''non-JSON''"
proof -
  have "non_json_message st
          = (''TrackingTime returned HTTP '' @ string_of_nat st @ '' with '') @ ''non-JSON''
            @ '' response. The service may be temporarily unavailable.''"
    by (simp add: non_json_message_def)
  then show ?thesis unfolding str_includes_iff by blast
qed

subsection \<open>Application failures: envelope status other than 200\<close>

text \<open>
  Claim C1, as the code has it. When the response declares JSON and parses to an envelope
  whose status is not 200, \<open>apiRequest\<close> throws a \<open>TrackingTimeError\<close> whose status is the
  envelope's status. When the envelope's message is not empty, the error's message is
  that message alone for a status without a hint, and that message followed by a full
  stop, a space and the hint for a status with one; the statuses with a hint are exactly
  401, 403 and 502.
\<close>

theorem apiRequest_envelope_failure:
  assumes "fetch rt (request_url cfg endpoint params) (request_options rt cfg method body) = Resolved res"
    and "declares_json res"
    and "res_json res = Inr env"
    and "status (response env) \<noteq> 200"
  shows "(\<exists>msg. apiRequest rt cfg method endpoint params body
                 = Inl (TrackingTimeError (status (response env)) msg))
       \<and> (\<forall>m. message (response env) = Some m \<and> m \<noteq> [] \<longrightarrow>
             apiRequest rt cfg method endpoint params body
               = Inl (TrackingTimeError (status (response env))
                        (case ERROR_HINTS (status (response env)) of
                           Some hint \<Rightarrow> m @ ''. '' @ hint
                         | None \<Rightarrow> m)))
       \<and> ((ERROR_HINTS (status (response env)) \<noteq> None)
            = (status (response env) = 401 \<or> status (response env) = 403
               \<or> status (response env) = 502))"
proof -
  have req: "apiRequest rt cfg method endpoint params body = Inl (envelope_error (response env))"
    using assms by (simp add: apiRequest_resolved)
  have a: "\<exists>msg. apiRequest rt cfg method endpoint params body
                 = Inl (TrackingTimeError (status (response env)) msg)"
    unfolding req by (simp add: envelope_error_def Let_def)
  have b: "\<forall>m. message (response env) = Some m \<and> m \<noteq> [] \<longrightarrow>
             apiRequest rt cfg method endpoint params body
               = Inl (TrackingTimeError (status (response env))
                        (case ERROR_HINTS (status (response env)) of
                           Some hint \<Rightarrow> m @ ''. '' @ hint
                         | None \<Rightarrow> m))"
    unfolding req by (simp add: envelope_error_def Let_def)
  show ?thesis using a b ERROR_HINTS_dom by blast
qed

text \<open>The scenario of a start-timer call answered with status 502.\<close>

theorem apiRequest_envelope_failure_witness:
  "fetch (answering ''POST'' track_url (Resolved tracking_reply))
       (request_url demo_config ''/tasks/track/42'' None)
       (request_options (answering ''POST'' track_url (Resolved tracking_reply)) demo_config ''POST'' None)
     = Resolved tracking_reply
   \<and> declares_json tracking_reply
   \<and> status (response \<lparr>response = \<lparr>status = 502, message = Some ''already tracking''\<rparr>, data = JNull\<rparr>) \<noteq> 200
   \<and> apiRequest (answering ''POST'' track_url (Resolved tracking_reply)) demo_config
         ''POST'' ''/tasks/track/42'' None None
       = Inl (TrackingTimeError 502
               (''already tracking. This usually means a timer is already running. '' @
                ''Use stop_running_task=true on tt_start_timer, or call tt_stop_timer first.''))"
proof -
  let ?rt = "answering ''POST'' track_url (Resolved tracking_reply)"
  let ?env = "\<lparr>response = \<lparr>status = 502, message = Some ''already tracking''\<rparr>, data = JNull\<rparr>"
  have h1: "fetch ?rt (request_url demo_config ''/tasks/track/42'' None)
              (request_options ?rt demo_config ''POST'' None) = Resolved tracking_reply"
    by (simp add: track_url_eq answering_options)
  have h2: "declares_json tracking_reply"
    by (simp add: declares_json_def tracking_reply_def json_response_def)
  have h3: "res_json tracking_reply = Inr ?env"
    by (simp add: tracking_reply_def json_response_def)
  have h4: "status (response ?env) \<noteq> 200" by simp
  from apiRequest_envelope_failure [OF h1 h2 h3 h4]
  have "apiRequest ?rt demo_config ''POST'' ''/tasks/track/42'' None None
          = Inl (TrackingTimeError 502
                   (case ERROR_HINTS 502 of Some hint \<Rightarrow> ''already tracking'' @ ''. '' @ hint
                    | None \<Rightarrow> ''already tracking''))"
    by simp
  then have "apiRequest ?rt demo_config ''POST'' ''/tasks/track/42'' None None
       = Inl (TrackingTimeError 502
               (''already tracking. This usually means a timer is already running. '' @
                ''Use stop_running_task=true on tt_start_timer, or call tt_stop_timer first.''))"
    by (simp add: ERROR_HINTS_def)
  with h1 h2 h4 show ?thesis by blast
qed

text \<open>
  As the claim is worded it fails twice: an empty envelope message is replaced by the
  fallback text, so the error's message is not the envelope's message alone; and between
  the message and the hint the code puts a full stop and a space, so the error's message
  is not the two concatenated.
\<close>

theorem apiRequest_envelope_message_counterexample:
  "apiRequest (answering ''GET'' projects_url (Resolved empty_message_reply)) demo_config
       ''GET'' ''/projects'' (Some []) None
     = Inl (TrackingTimeError 500 ''API error (status 500)'')
   \<and> apiRequest (answering ''GET'' projects_url (Resolved empty_message_reply)) demo_config
       ''GET'' ''/projects'' (Some []) None
     \<noteq> Inl (TrackingTimeError 500 [])
   \<and> apiRequest (answering ''POST'' track_url (Resolved tracking_reply)) demo_config
       ''POST'' ''/tasks/track/42'' None None
     \<noteq> Inl (TrackingTimeError 502
             (''already tracking'' @
              ''This usually means a timer is already running. '' @
              ''Use stop_running_task=true on tt_start_timer, or call tt_stop_timer first.''))"
proof -
  have a: "apiRequest (answering ''GET'' projects_url (Resolved empty_message_reply)) demo_config
       ''GET'' ''/projects'' (Some []) None
     = Inl (TrackingTimeError 500 ''API error (status 500)'')"
    by (simp add: apiRequest_resolved [where res = empty_message_reply] projects_url_eq
        answering_options declares_json_def empty_message_reply_def json_response_def
        envelope_error_def ERROR_HINTS_def string_of_int_def string_of_nat.simps)
  have b: "apiRequest (answering ''POST'' track_url (Resolved tracking_reply)) demo_config
       ''POST'' ''/tasks/track/42'' None None
     = Inl (TrackingTimeError 502
               (''already tracking. This usually means a timer is already running. '' @
                ''Use stop_running_task=true on tt_start_timer, or call tt_stop_timer first.''))"
    by (simp add: apiRequest_resolved [where res = tracking_reply] track_url_eq
        answering_options declares_json_def tracking_reply_def json_response_def
        envelope_error_def ERROR_HINTS_def)
  show ?thesis unfolding a b by simp
qed

text \<open>
  Claim C9. When the envelope's status is not 200 and its message is empty or missing,
  the error's message is the fallback text \<open>API error (status s)\<close> for the envelope's
  status \<open>s\<close>, followed by a full stop, a space and the hint when \<open>s\<close> has one; so the
  message of the error thrown is never empty.
\<close>

theorem apiRequest_fallback_message:
  assumes "fetch rt (request_url cfg endpoint params) (request_options rt cfg method body) = Resolved res"
    and "declares_json res"
    and "res_json res = Inr env"
    and "status (response env) \<noteq> 200"
    and "message (response env) = None \<or> message (response env) = Some []"
  shows "apiRequest rt cfg method endpoint params body
           = Inl (TrackingTimeError (status (response env))
                    (case ERROR_HINTS (status (response env)) of
                       Some hint \<Rightarrow>
                         ''API error (status '' @ string_of_int (status (response env)) @ '')''
                         @ ''. '' @ hint
                     | None \<Rightarrow>
                         ''API error (status '' @ string_of_int (status (response env)) @ '')''))
       \<and> (\<forall>st msg. apiRequest rt cfg method endpoint params body = Inl (TrackingTimeError st msg)
             \<longrightarrow> msg \<noteq> [])"
proof -
  have req: "apiRequest rt cfg method endpoint params body = Inl (envelope_error (response env))"
    using assms by (simp add: apiRequest_resolved)
  have val: "envelope_error (response env)
           = TrackingTimeError (status (response env))
                    (case ERROR_HINTS (status (response env)) of
                       Some hint \<Rightarrow>
                         ''API error (status '' @ string_of_int (status (response env)) @ '')''
                         @ ''. '' @ hint
                     | None \<Rightarrow>
                         ''API error (status '' @ string_of_int (status (response env)) @ '')'')"
    using assms(5) by (auto simp: envelope_error_def Let_def split: option.splits)
  have ne: "\<forall>st msg. envelope_error (response env) = TrackingTimeError st msg \<longrightarrow> msg \<noteq> []"
    unfolding val by (auto split: option.splits)
  from req val ne show ?thesis by simp
qed

text \<open>A missing message under status 401, and an empty one under status 500.\<close>

theorem apiRequest_fallback_message_witness:
  "fetch (answering ''GET'' projects_url (Resolved missing_message_reply))
       (request_url demo_config ''/projects'' (Some []))
       (request_options (answering ''GET'' projects_url (Resolved missing_message_reply)) demo_config ''GET'' None)
     = Resolved missing_message_reply
   \<and> declares_json missing_message_reply
   \<and> apiRequest (answering ''GET'' projects_url (Resolved missing_message_reply)) demo_config
         ''GET'' ''/projects'' (Some []) None
       = Inl (TrackingTimeError 401
               (''API error (status 401). '' @
                ''Check that your App Password is correct and hasn't been revoked.''))
   \<and> apiRequest (answering ''GET'' projects_url (Resolved empty_message_reply)) demo_config
         ''GET'' ''/projects'' (Some []) None
       = Inl (TrackingTimeError 500 ''API error (status 500)'')"
proof -
  have f: "\<And>out. fetch (answering ''GET'' projects_url out)
              (request_url demo_config ''/projects'' (Some []))
              (request_options (answering ''GET'' projects_url out) demo_config ''GET'' None) = out"
    by (simp add: projects_url_eq answering_options)
  have s: "string_of_int 401 = ''401''" "string_of_int 500 = ''500''"
    by (simp_all add: string_of_int_def string_of_nat.simps)
  let ?e1 = "\<lparr>response = \<lparr>status = 401, message = None\<rparr>, data = JNull\<rparr>"
  let ?e2 = "\<lparr>response = \<lparr>status = 500, message = Some []\<rparr>, data = JNull\<rparr>"
  have d1: "declares_json missing_message_reply"
    by (simp add: declares_json_def missing_message_reply_def json_response_def)
  have d2: "declares_json empty_message_reply"
    by (simp add: declares_json_def empty_message_reply_def json_response_def)
  have j1: "res_json missing_message_reply = Inr ?e1"
    by (simp add: missing_message_reply_def json_response_def)
  have j2: "res_json empty_message_reply = Inr ?e2"
    by (simp add: empty_message_reply_def json_response_def)
  have n1: "status (response ?e1) \<noteq> 200" and n2: "status (response ?e2) \<noteq> 200" by simp_all
  have m1: "message (response ?e1) = None \<or> message (response ?e1) = Some []" by simp
  have m2: "message (response ?e2) = None \<or> message (response ?e2) = Some []" by simp
  from apiRequest_fallback_message [OF f [of "Resolved missing_message_reply"] d1 j1 n1 m1]
  have 1: "apiRequest (answering ''GET'' projects_url (Resolved missing_message_reply)) demo_config
         ''GET'' ''/projects'' (Some []) None
       = Inl (TrackingTimeError 401
               (''API error (status 401). '' @
                ''Check that your App Password is correct and hasn't been revoked.''))"
    by (simp add: ERROR_HINTS_def s)
  from apiRequest_fallback_message [OF f [of "Resolved empty_message_reply"] d2 j2 n2 m2]
  have 2: "apiRequest (answering ''GET'' projects_url (Resolved empty_message_reply)) demo_config
         ''GET'' ''/projects'' (Some []) None
       = Inl (TrackingTimeError 500 ''API error (status 500)'')"
    by (simp add: ERROR_HINTS_def s)
  from f [of "Resolved missing_message_reply"] d1 1 2 show ?thesis by blast
qed

subsection \<open>Successful calls\<close>

text \<open>
  Claim C2. When the response declares JSON and parses to an envelope whose status is
  200, \<open>apiRequest\<close> returns the envelope's \<open>data\<close> as it is. With no query parameters,
  absent or an empty object, nothing is appended to the URL after the path.
\<close>

theorem apiRequest_success_returns_data:
  assumes "fetch rt (request_url cfg endpoint params) (request_options rt cfg method body) = Resolved res"
    and "declares_json res"
    and "res_json res = Inr env"
    and "status (response env) = 200"
  shows "apiRequest rt cfg method endpoint params body = Inr (data env)
       \<and> request_url cfg endpoint None = BASE_URL cfg @ ''/'' @ strip_leading_slash endpoint
       \<and> request_url cfg endpoint (Some []) = BASE_URL cfg @ ''/'' @ strip_leading_slash endpoint"
proof -
  have "apiRequest rt cfg method endpoint params body = Inr (data env)"
    using assms by (simp add: apiRequest_resolved)
  then show ?thesis by (simp add: request_url_def)
qed

text \<open>
  The scenario: GET \<open>/projects\<close> without parameters, answered by the mock envelope with
  one project.
\<close>

theorem apiRequest_success_returns_data_witness:
  "fetch (answering ''GET'' projects_url (Resolved projects_reply))
       (request_url demo_config ''/projects'' (Some []))
       (request_options (answering ''GET'' projects_url (Resolved projects_reply)) demo_config ''GET'' None)
     = Resolved projects_reply
   \<and> declares_json projects_reply
   \<and> request_url demo_config ''/projects'' (Some []) = ''https://app.trackingtime.co/api/v4/42/projects''
   \<and> apiRequest (answering ''GET'' projects_url (Resolved projects_reply)) demo_config
         ''GET'' ''/projects'' (Some []) None
       = Inr (JArr [JObj [(''id'', JNum 1), (''name'', JStr ''Demo'')]])"
proof -
  let ?rt = "answering ''GET'' projects_url (Resolved projects_reply)"
  let ?env = "\<lparr>response = \<lparr>status = 200, message = Some ''ok''\<rparr>, data = demo_projects\<rparr>"
  have h1: "fetch ?rt (request_url demo_config ''/projects'' (Some []))
              (request_options ?rt demo_config ''GET'' None) = Resolved projects_reply"
    by (simp add: projects_url_eq answering_options)
  have h2: "declares_json projects_reply"
    by (simp add: declares_json_def projects_reply_def json_response_def)
  have h3: "res_json projects_reply = Inr ?env"
    by (simp add: projects_reply_def json_response_def)
  have h4: "status (response ?env) = 200" by simp
  from apiRequest_success_returns_data [OF h1 h2 h3 h4]
  have "apiRequest ?rt demo_config ''GET'' ''/projects'' (Some []) None
          = Inr (JArr [JObj [(''id'', JNum 1), (''name'', JStr ''Demo'')]])"
    by (simp add: demo_projects_def)
  moreover have "request_url demo_config ''/projects'' (Some []) = ''https://app.trackingtime.co/api/v4/42/projects''"
    by (simp add: request_url_def demo_config_def)
  ultimately show ?thesis using h1 h2 by blast
qed

subsection \<open>Transport failures\<close>

text \<open>
  Claim C4. The only abort signal is the one the 30-second timer raises, and \<open>fetch\<close>
  then rejects with a \<open>DOMException\<close> named \<open>AbortError\<close>. In that case \<open>apiRequest\<close> and
  \<open>rawApiRequest\<close> throw a \<open>TrackingTimeError\<close> with status 0 and the timeout message,
  which contains \<open>timed out\<close>; any other rejection gives status 0 and \<open>Network error: \<close>
  followed by the text of the cause. The timeout message differs from every
  network-error message.
\<close>

theorem transport_failure_messages:
  "(fetch rt (request_url cfg endpoint params) (request_options rt cfg meth body) = Rejected err \<longrightarrow>
      apiRequest rt cfg meth endpoint params body
        = Inl (TrackingTimeError 0
                 (if is_abort err then timeout_message else ''Network error: '' @ error_text err)))
   \<and> (fetch rt (request_url cfg endpoint params) (request_options rt cfg meth None) = Rejected err \<longrightarrow>
      rawApiRequest rt cfg meth endpoint params
        = Inl (TrackingTimeError 0
                 (if is_abort err then timeout_message else ''Network error: '' @ error_text err)))
   \<and> str_includes timeout_message ''timed out''
   \<and> timeout_message \<noteq> ''Network error: '' @ txt"
proof -
  have a: "fetch rt (request_url cfg endpoint params) (request_options rt cfg meth body) = Rejected err \<longrightarrow>
      apiRequest rt cfg meth endpoint params body
        = Inl (TrackingTimeError 0
                 (if is_abort err then timeout_message else ''Network error: '' @ error_text err))"
    by (simp add: apiRequest_rejected transport_error_def)
  have b: "fetch rt (request_url cfg endpoint params) (request_options rt cfg meth None) = Rejected err \<longrightarrow>
      rawApiRequest rt cfg meth endpoint params
        = Inl (TrackingTimeError 0
                 (if is_abort err then timeout_message else ''Network error: '' @ error_text err))"
    by (simp add: rawApiRequest_rejected transport_error_def)
  have c: "timeout_message \<noteq> ''Network error: '' @ txt"
    by (simp add: timeout_message_def)
  from a b c timeout_message_timed_out show ?thesis by blast
qed

text \<open>An aborted request and a refused connection, through both request functions.\<close>

theorem transport_failure_messages_witness:
  "apiRequest (answering ''GET'' projects_url (Rejected aborted)) demo_config ''GET'' ''/projects'' (Some []) None
     = Inl (TrackingTimeError 0 ''Request timed out after 30s. TrackingTime may be unavailable.'')
   \<and> rawApiRequest (answering ''GET'' projects_url (Rejected aborted)) demo_config ''GET'' ''/projects'' (Some [])
     = Inl (TrackingTimeError 0 ''Request timed out after 30s. TrackingTime may be unavailable.'')
   \<and> apiRequest (answering ''GET'' projects_url (Rejected refused)) demo_config ''GET'' ''/projects'' (Some []) None
     = Inl (TrackingTimeError 0 ''Network error: fetch failed'')
   \<and> rawApiRequest (answering ''GET'' projects_url (Rejected refused)) demo_config ''GET'' ''/projects'' (Some [])
     = Inl (TrackingTimeError 0 ''Network error: fetch failed'')"
proof -
  have f: "\<And>out. fetch (answering ''GET'' projects_url out)
              (request_url demo_config ''/projects'' (Some []))
              (request_options (answering ''GET'' projects_url out) demo_config ''GET'' None) = out"
    by (simp add: projects_url_eq answering_options)
  note t = transport_failure_messages
      [where rt = "answering ''GET'' projects_url (Rejected aborted)" and cfg = demo_config
         and endpoint = "''/projects''" and params = "Some []" and meth = "''GET''"
         and body = None and err = aborted]
  note r = transport_failure_messages
      [where rt = "answering ''GET'' projects_url (Rejected refused)" and cfg = demo_config
         and endpoint = "''/projects''" and params = "Some []" and meth = "''GET''"
         and body = None and err = refused]
  from t f [of "Rejected aborted"]
  have 1: "apiRequest (answering ''GET'' projects_url (Rejected aborted)) demo_config ''GET'' ''/projects'' (Some []) None
     = Inl (TrackingTimeError 0 ''Request timed out after 30s. TrackingTime may be unavailable.'')"
    and 2: "rawApiRequest (answering ''GET'' projects_url (Rejected aborted)) demo_config ''GET'' ''/projects'' (Some [])
     = Inl (TrackingTimeError 0 ''Request timed out after 30s. TrackingTime may be unavailable.'')"
    by (simp_all add: aborted_def timeout_message_def)
  from r f [of "Rejected refused"]
  have 3: "apiRequest (answering ''GET'' projects_url (Rejected refused)) demo_config ''GET'' ''/projects'' (Some []) None
     = Inl (TrackingTimeError 0 ''Network error: fetch failed'')"
    and 4: "rawApiRequest (answering ''GET'' projects_url (Rejected refused)) demo_config ''GET'' ''/projects'' (Some [])
     = Inl (TrackingTimeError 0 ''Network error: fetch failed'')"
    by (simp_all add: refused_def)
  from 1 2 3 4 show ?thesis by blast
qed

subsection \<open>Responses that do not declare JSON\<close>

text \<open>
  Claim C5. When the content type of the response does not contain
  \<open>application/json\<close>, \<open>apiRequest\<close> throws a \<open>TrackingTimeError\<close> whose status is the
  HTTP status and whose message notes a non-JSON response. Nothing is asked of the HTTP
  status, so this holds in the success range too, and the call never returns a payload.
\<close>

theorem apiRequest_non_json_fails:
  assumes "fetch rt (request_url cfg endpoint params) (request_options rt cfg method body) = Resolved res"
    and "\<not> declares_json res"
  shows "apiRequest rt cfg method endpoint params body
           = Inl (TrackingTimeError (int (res_status res))
                    (''TrackingTime returned HTTP '' @ string_of_nat (res_status res) @
                     '' with non-JSON response. The service may be temporarily unavailable.''))
       \<and> str_includes (non_json_message (res_status res)) ''non-JSON''
       \<and> (\<forall>d. apiRequest rt cfg method endpoint params body \<noteq> Inr d)"
proof -
  have "apiRequest rt cfg method endpoint params body
           = Inl (TrackingTimeError (int (res_status res))
                    (''TrackingTime returned HTTP '' @ string_of_nat (res_status res) @
                     '' with non-JSON response. The service may be temporarily unavailable.''))"
    using assms by (simp add: apiRequest_resolved non_json_message_def)
  then show ?thesis using non_json_message_notes by simp
qed

text \<open>HTTP status 200 with content type \<open>text/csv\<close>.\<close>

theorem apiRequest_non_json_fails_witness:
  "fetch (answering ''GET'' export_url (Resolved csv_response))
       (request_url demo_config ''/events/export'' (Some (export_params export_comma)))
       (request_options (answering ''GET'' export_url (Resolved csv_response)) demo_config ''GET'' None)
     = Resolved csv_response
   \<and> \<not> declares_json csv_response
   \<and> res_status csv_response = 200
   \<and> apiRequest (answering ''GET'' export_url (Resolved csv_response)) demo_config
         ''GET'' ''/events/export'' (Some (export_params export_comma)) None
       = Inl (TrackingTimeError 200
               (''TrackingTime returned HTTP 200 with non-JSON response. '' @
                ''The service may be temporarily unavailable.''))"
proof -
  let ?rt = "answering ''GET'' export_url (Resolved csv_response)"
  have h1: "fetch ?rt (request_url demo_config ''/events/export'' (Some (export_params export_comma)))
              (request_options ?rt demo_config ''GET'' None) = Resolved csv_response"
    by (simp add: export_url_eq answering_options)
  have h2: "\<not> declares_json csv_response"
    by (simp add: declares_json_def csv_response_def)
  have h3: "res_status csv_response = 200"
    by (simp add: csv_response_def)
  have s: "string_of_nat 200 = ''200''"
    by (simp add: string_of_nat.simps)
  from apiRequest_non_json_fails [OF h1 h2]
  have "apiRequest ?rt demo_config ''GET'' ''/events/export'' (Some (export_params export_comma)) None
       = Inl (TrackingTimeError 200
               (''TrackingTime returned HTTP 200 with non-JSON response. '' @
                ''The service may be temporarily unavailable.''))"
    by (simp add: h3 s)
  with h1 h2 h3 show ?thesis by blast
qed

subsection \<open>The raw-text request\<close>

text \<open>
  Claim C6. \<open>rawApiRequest\<close> returns the body text unchanged when the HTTP status is
  between 200 and 299, and otherwise throws a \<open>TrackingTimeError\<close> with that status and
  the message \<open>TrackingTime returned HTTP\<close> followed by it. Its result does not depend
  on what parsing the body as JSON would give.
\<close>

theorem rawApiRequest_by_http_status:
  assumes "fetch rt (request_url cfg endpoint params) (request_options rt cfg method None) = Resolved res"
  shows "(200 \<le> res_status res \<and> res_status res \<le> 299 \<longrightarrow>
            rawApiRequest rt cfg method endpoint params = Inr (res_text res))
       \<and> (\<not> (200 \<le> res_status res \<and> res_status res \<le> 299) \<longrightarrow>
            rawApiRequest rt cfg method endpoint params
              = Inl (TrackingTimeError (int (res_status res))
                       (''TrackingTime returned HTTP '' @ string_of_nat (res_status res))))
       \<and> (\<forall>j. rawApiRequest
                 (rt\<lparr>fetch := \<lambda>u opts. case fetch rt u opts of
                                          Resolved r \<Rightarrow> Resolved (r\<lparr>res_json := j\<rparr>)
                                        | Rejected e \<Rightarrow> Rejected e\<rparr>)
                 cfg method endpoint params
               = rawApiRequest rt cfg method endpoint params)"
proof -
  have opts: "\<And>rt'. request_options rt' cfg method None = request_options rt cfg method None"
    by (simp add: request_options_def)
  have a: "rawApiRequest rt cfg method endpoint params =
           (if \<not> res_ok res
            then Inl (TrackingTimeError (int (res_status res))
                        (''TrackingTime returned HTTP '' @ string_of_nat (res_status res)))
            else Inr (res_text res))"
    using assms by (rule rawApiRequest_resolved)
  have b: "\<forall>j. rawApiRequest
                 (rt\<lparr>fetch := \<lambda>u opts. case fetch rt u opts of
                                          Resolved r \<Rightarrow> Resolved (r\<lparr>res_json := j\<rparr>)
                                        | Rejected e \<Rightarrow> Rejected e\<rparr>)
                 cfg method endpoint params
               = rawApiRequest rt cfg method endpoint params"
    using assms by (simp add: rawApiRequest_def Let_def request_options_def res_ok_def)
  from a b show ?thesis by (simp add: res_ok_def)
qed

text \<open>The export scenario with status 200, and an HTML error page with status 502.\<close>

theorem rawApiRequest_by_http_status_witness:
  "rawApiRequest (answering ''GET'' export_url (Resolved csv_response)) demo_config
       ''GET'' ''/events/export'' (Some (export_params export_comma))
     = Inr (''id,duration'' @ [CHR 0x0A] @ ''1,3600'')
   \<and> rawApiRequest (answering ''GET'' export_url (Resolved (html_response 502))) demo_config
       ''GET'' ''/events/export'' (Some (export_params export_comma))
     = Inl (TrackingTimeError 502 ''TrackingTime returned HTTP 502'')"
proof -
  have f: "\<And>out. fetch (answering ''GET'' export_url out)
              (request_url demo_config ''/events/export'' (Some (export_params export_comma)))
              (request_options (answering ''GET'' export_url out) demo_config ''GET'' None) = out"
    by (simp add: export_url_eq answering_options)
  have s: "string_of_nat 502 = ''502''"
    by (simp add: string_of_nat.simps)
  from rawApiRequest_by_http_status [OF f [of "Resolved csv_response"]]
  have 1: "rawApiRequest (answering ''GET'' export_url (Resolved csv_response)) demo_config
       ''GET'' ''/events/export'' (Some (export_params export_comma))
     = Inr (''id,duration'' @ [CHR 0x0A] @ ''1,3600'')"
    by (simp add: csv_response_def csv_body_def)
  from rawApiRequest_by_http_status [OF f [of "Resolved (html_response 502)"]]
  have 2: "rawApiRequest (answering ''GET'' export_url (Resolved (html_response 502))) demo_config
       ''GET'' ''/events/export'' (Some (export_params export_comma))
     = Inl (TrackingTimeError 502 ''TrackingTime returned HTTP 502'')"
    by (simp add: html_response_def s)
  from 1 2 show ?thesis by blast
qed

subsection \<open>The tool boundary never throws\<close>

text \<open>
  Claim C7. A handler returns a result whatever the awaited request yields, and when the
  request throws, the result is marked as an error and its text is \<open>formatError\<close> of
  the thrown value: the message prefixed with \<open>TrackingTime API error (status): \<close> for a
  \<open>TrackingTimeError\<close>, the message alone for any other error, and the rendering of the
  value otherwise. This holds of the shape all handlers share, for any request, and of
  the handlers of \<open>tt_list_projects\<close> and \<open>tt_export_time_entries\<close> with the requests
  they make: when that request fails with \<open>err\<close>, the tool returns the error result
  of \<open>err\<close>.
\<close>

theorem tool_handler_never_throws:
  "(\<exists>r. tool_handler rt awaited = Inr r)
   \<and> (apiRequest rt cfg meth endpoint params body = Inl err \<longrightarrow>
        tool_handler rt (apiRequest rt cfg meth endpoint params body)
          = Inr \<lparr>content_text = formatError err, isError = True\<rparr>)
   \<and> formatError (TrackingTimeError st msg)
       = ''TrackingTime API error ('' @ string_of_int st @ ''): '' @ msg
   \<and> formatError (DOMException name msg) = msg
   \<and> formatError (JsError msg) = msg
   \<and> formatError (NonError txt) = txt
   \<and> (\<exists>r. tt_list_projects rt cfg filter_opt = Inr r)
   \<and> (\<exists>r. tt_export_time_entries rt cfg a = Inr r)
   \<and> (apiRequest rt cfg ''GET'' ''/projects''
          (Some (case filter_opt of
                   None \<Rightarrow> []
                 | Some f \<Rightarrow> if f \<noteq> [] then [(''filter'', f)] else []))
          None = Inl err \<longrightarrow>
        tt_list_projects rt cfg filter_opt
          = Inr \<lparr>content_text = formatError err, isError = True\<rparr>)
   \<and> (apiRequest rt cfg ''GET'' ''/events/export'' (Some (export_params a)) None = Inl err \<longrightarrow>
        tt_export_time_entries rt cfg a
          = Inr \<lparr>content_text = formatError err, isError = True\<rparr>)"
proof -
  have total: "\<And>x. \<exists>r. tool_handler rt x = Inr r"
    by (simp add: tool_handler_def split: sum.split)
  have thrown: "\<And>x. x = Inl err \<Longrightarrow>
        tool_handler rt x = Inr \<lparr>content_text = formatError err, isError = True\<rparr>"
    by (simp add: tool_handler_def errorResult_def)
  have caught: "apiRequest rt cfg meth endpoint params body = Inl err \<longrightarrow>
        tool_handler rt (apiRequest rt cfg meth endpoint params body)
          = Inr \<lparr>content_text = formatError err, isError = True\<rparr>"
    using thrown by blast
  have fmt: "formatError (TrackingTimeError st msg)
       = ''TrackingTime API error ('' @ string_of_int st @ ''): '' @ msg"
    "formatError (DOMException name msg) = msg"
    "formatError (JsError msg) = msg"
    "formatError (NonError txt) = txt"
    by (simp_all add: formatError_def)
  have lp: "\<exists>r. tt_list_projects rt cfg filter_opt = Inr r"
    unfolding tt_list_projects_def Let_def by (rule total)
  have ex: "\<exists>r. tt_export_time_entries rt cfg a = Inr r"
    unfolding tt_export_time_entries_def by (rule total)
  have lp_err: "apiRequest rt cfg ''GET'' ''/projects''
          (Some (case filter_opt of
                   None \<Rightarrow> []
                 | Some f \<Rightarrow> if f \<noteq> [] then [(''filter'', f)] else []))
          None = Inl err \<longrightarrow>
        tt_list_projects rt cfg filter_opt
          = Inr \<lparr>content_text = formatError err, isError = True\<rparr>"
    unfolding tt_list_projects_def Let_def using thrown by blast
  have ex_err: "apiRequest rt cfg ''GET'' ''/events/export'' (Some (export_params a)) None = Inl err \<longrightarrow>
        tt_export_time_entries rt cfg a
          = Inr \<lparr>content_text = formatError err, isError = True\<rparr>"
    unfolding tt_export_time_entries_def using thrown by blast
  from total [of awaited] caught fmt lp ex lp_err ex_err show ?thesis by blast
qed

text \<open>
  Listing projects when the service answers with an application failure, and when the
  body declared as JSON does not parse; exporting when a gateway answers with an HTML
  page.
\<close>

theorem tool_handler_never_throws_witness:
  "apiRequest (answering ''GET'' projects_url (Resolved not_found_reply)) demo_config
       ''GET'' ''/projects'' (Some []) None
     = Inl (TrackingTimeError 500 ''Project not found'')
   \<and> tt_list_projects (answering ''GET'' projects_url (Resolved not_found_reply)) demo_config None
     = Inr \<lparr>content_text = ''TrackingTime API error (500): Project not found'', isError = True\<rparr>
   \<and> apiRequest (answering ''GET'' projects_url (Resolved broken_json_reply)) demo_config
       ''GET'' ''/projects'' (Some []) None
     = Inl (JsError ''Unexpected end of JSON input'')
   \<and> tt_list_projects (answering ''GET'' projects_url (Resolved broken_json_reply)) demo_config None
     = Inr \<lparr>content_text = ''Unexpected end of JSON input'', isError = True\<rparr>
   \<and> apiRequest (answering ''GET'' export_url (Resolved (html_response 502))) demo_config
       ''GET'' ''/events/export'' (Some (export_params export_comma)) None
     = Inl (TrackingTimeError 502
             (''TrackingTime returned HTTP 502 with non-JSON response. '' @
              ''The service may be temporarily unavailable.''))
   \<and> tt_export_time_entries (answering ''GET'' export_url (Resolved (html_response 502)))
       demo_config export_comma
     = Inr \<lparr>content_text =
              ''TrackingTime API error (502): TrackingTime returned HTTP 502 with non-JSON response. '' @
              ''The service may be temporarily unavailable.'',
            isError = True\<rparr>"
proof -
  have f: "\<And>out. fetch (answering ''GET'' projects_url out)
              (request_url demo_config ''/projects'' (Some []))
              (request_options (answering ''GET'' projects_url out) demo_config ''GET'' None) = out"
    by (simp add: projects_url_eq answering_options)
  have g: "fetch (answering ''GET'' export_url (Resolved (html_response 502)))
              (request_url demo_config ''/events/export'' (Some (export_params export_comma)))
              (request_options (answering ''GET'' export_url (Resolved (html_response 502)))
                 demo_config ''GET'' None)
            = Resolved (html_response 502)"
    by (simp add: export_url_eq answering_options)
  have s: "string_of_int 500 = ''500''" "string_of_int 502 = ''502''" "string_of_nat 502 = ''502''"
    by (simp_all add: string_of_int_def string_of_nat.simps)
  have a1: "apiRequest (answering ''GET'' projects_url (Resolved not_found_reply)) demo_config
       ''GET'' ''/projects'' (Some []) None
     = Inl (TrackingTimeError 500 ''Project not found'')"
    unfolding apiRequest_resolved [OF f]
    by (simp add: declares_json_def not_found_reply_def json_response_def envelope_error_def
        ERROR_HINTS_def)
  have a2: "apiRequest (answering ''GET'' projects_url (Resolved broken_json_reply)) demo_config
       ''GET'' ''/projects'' (Some []) None
     = Inl (JsError ''Unexpected end of JSON input'')"
    unfolding apiRequest_resolved [OF f]
    by (simp add: declares_json_def broken_json_reply_def)
  have a3: "apiRequest (answering ''GET'' export_url (Resolved (html_response 502))) demo_config
       ''GET'' ''/events/export'' (Some (export_params export_comma)) None
     = Inl (TrackingTimeError 502
             (''TrackingTime returned HTTP 502 with non-JSON response. '' @
              ''The service may be temporarily unavailable.''))"
    unfolding apiRequest_resolved [OF g]
    by (simp add: declares_json_def html_response_def non_json_message_def s)
  note t1 = tool_handler_never_throws
      [where rt = "answering ''GET'' projects_url (Resolved not_found_reply)" and cfg = demo_config
         and filter_opt = None
         and err = "TrackingTimeError 500 ''Project not found''" and st = 500
         and msg = "''Project not found''"]
  note t2 = tool_handler_never_throws
      [where rt = "answering ''GET'' projects_url (Resolved broken_json_reply)" and cfg = demo_config
         and filter_opt = None
         and err = "JsError ''Unexpected end of JSON input''"
         and msg = "''Unexpected end of JSON input''"]
  note t3 = tool_handler_never_throws
      [where rt = "answering ''GET'' export_url (Resolved (html_response 502))" and cfg = demo_config
         and a = export_comma
         and err = "TrackingTimeError 502
             (''TrackingTime returned HTTP 502 with non-JSON response. '' @
              ''The service may be temporarily unavailable.'')"
         and st = 502
         and msg = "''TrackingTime returned HTTP 502 with non-JSON response. '' @
              ''The service may be temporarily unavailable.''"]
  from t1 a1
  have b1: "tt_list_projects (answering ''GET'' projects_url (Resolved not_found_reply)) demo_config None
     = Inr \<lparr>content_text = ''TrackingTime API error (500): Project not found'', isError = True\<rparr>"
    by (simp add: s)
  from t2 a2
  have b2: "tt_list_projects (answering ''GET'' projects_url (Resolved broken_json_reply)) demo_config None
     = Inr \<lparr>content_text = ''Unexpected end of JSON input'', isError = True\<rparr>"
    by simp
  from t3 a3
  have b3: "tt_export_time_entries (answering ''GET'' export_url (Resolved (html_response 502)))
       demo_config export_comma
     = Inr \<lparr>content_text =
              ''TrackingTime API error (502): TrackingTime returned HTTP 502 with non-JSON response. '' @
              ''The service may be temporarily unavailable.'',
            isError = True\<rparr>"
    by (simp add: s)
  from a1 a2 a3 b1 b2 b3 show ?thesis by blast
qed

subsection \<open>Missing configuration\<close>

text \<open>
  Claim C8. When the application password or the account identifier is unset (or
  empty), evaluating the API client module throws; the module of the tools imports it,
  so no tool is registered. A configuration, which every request function needs, exists
  only when both are present.
\<close>

theorem missing_credentials_fatal:
  "(TT_APP_PASSWORD e = None \<or> TT_APP_PASSWORD e = Some [] \<or>
    TT_ACCOUNT_ID e = None \<or> TT_ACCOUNT_ID e = Some [] \<longrightarrow>
      api_client_module e = Inl (JsError missing_env_message))
   \<and> (api_client_module e = Inr cfg \<longrightarrow>
        (\<exists>pw acct. TT_APP_PASSWORD e = Some pw \<and> pw \<noteq> [] \<and>
                   TT_ACCOUNT_ID e = Some acct \<and> acct \<noteq> [] \<and>
                   cfg = \<lparr>BASE_URL = ''https://app.trackingtime.co/api/v4/'' @ acct,
                          AUTH_HEADER = ''Basic '' @ base64 (''API_TOKEN:'' @ pw)\<rparr>))"
  by (auto simp: api_client_module_def split: option.splits if_splits)

text \<open>Either variable unset, and both set.\<close>

theorem missing_credentials_fatal_witness:
  "api_client_module \<lparr>TT_APP_PASSWORD = None, TT_ACCOUNT_ID = Some ''42''\<rparr>
     = Inl (JsError missing_env_message)
   \<and> api_client_module \<lparr>TT_APP_PASSWORD = Some ''pw'', TT_ACCOUNT_ID = None\<rparr>
     = Inl (JsError missing_env_message)
   \<and> api_client_module demo_env = Inr demo_config
   \<and> TT_APP_PASSWORD demo_env = Some ''pw'' \<and> TT_ACCOUNT_ID demo_env = Some ''42''"
proof -
  from missing_credentials_fatal [where e = "\<lparr>TT_APP_PASSWORD = None, TT_ACCOUNT_ID = Some ''42''\<rparr>"]
  have 1: "api_client_module \<lparr>TT_APP_PASSWORD = None, TT_ACCOUNT_ID = Some ''42''\<rparr>
     = Inl (JsError missing_env_message)"
    by simp
  from missing_credentials_fatal [where e = "\<lparr>TT_APP_PASSWORD = Some ''pw'', TT_ACCOUNT_ID = None\<rparr>"]
  have 2: "api_client_module \<lparr>TT_APP_PASSWORD = Some ''pw'', TT_ACCOUNT_ID = None\<rparr>
     = Inl (JsError missing_env_message)"
    by simp
  have 3: "api_client_module demo_env = Inr demo_config"
    by (simp add: api_client_module_def demo_env_def demo_config_def base64_def base64_alphabet_def)
  from missing_credentials_fatal [where e = demo_env and cfg = demo_config] 3
  have 4: "TT_APP_PASSWORD demo_env = Some ''pw'' \<and> TT_ACCOUNT_ID demo_env = Some ''42''"
    by (simp add: demo_env_def)
  from 1 2 3 4 show ?thesis by blast
qed

subsection \<open>The leading slash of an endpoint\<close>

text \<open>
  Claim C10. One slash at the start of the endpoint is removed, and no more than one.
  So for an endpoint \<open>p\<close> that does not begin with a slash, \<open>p\<close> and \<open>/p\<close> give the same
  URL and the same result of \<open>apiRequest\<close> and of \<open>rawApiRequest\<close>, for every method,
  parameter map and body.
\<close>

theorem leading_slash_invariance:
  "strip_leading_slash (CHR ''/'' # p) = p
   \<and> (\<not> prefix ''/'' p \<longrightarrow>
        request_url cfg (CHR ''/'' # p) params = request_url cfg p params
        \<and> apiRequest rt cfg meth (CHR ''/'' # p) params body
            = apiRequest rt cfg meth p params body
        \<and> rawApiRequest rt cfg meth (CHR ''/'' # p) params
            = rawApiRequest rt cfg meth p params)"
proof -
  have strip: "\<not> prefix ''/'' p \<Longrightarrow> strip_leading_slash p = p"
    by (cases p) auto
  have url: "\<not> prefix ''/'' p \<Longrightarrow> request_url cfg (CHR ''/'' # p) params = request_url cfg p params"
    by (simp add: request_url_def strip)
  show ?thesis
    using url by (simp add: apiRequest_def rawApiRequest_def)
qed

text \<open>The endpoints \<open>projects\<close> and \<open>/projects\<close>.\<close>

theorem leading_slash_invariance_witness:
  "\<not> prefix ''/'' ''projects''
   \<and> request_url demo_config ''/projects'' (Some [(''filter'', ''ALL'')])
       = ''https://app.trackingtime.co/api/v4/42/projects?filter=ALL''
   \<and> request_url demo_config ''projects'' (Some [(''filter'', ''ALL'')])
       = ''https://app.trackingtime.co/api/v4/42/projects?filter=ALL''
   \<and> apiRequest (answering ''GET'' projects_url (Resolved projects_reply)) demo_config
         ''GET'' ''projects'' (Some []) None
       = apiRequest (answering ''GET'' projects_url (Resolved projects_reply)) demo_config
         ''GET'' ''/projects'' (Some []) None"
proof -
  have h: "\<not> prefix ''/'' ''projects''" by simp
  have u: "request_url demo_config ''projects'' (Some [(''filter'', ''ALL'')])
       = ''https://app.trackingtime.co/api/v4/42/projects?filter=ALL''"
    by (simp add: request_url_def demo_config_def URLSearchParams_toString_def urlencode_def
        urlencode_byte_def urlencoded_plain_def)
  note t = leading_slash_invariance [where p = "''projects''" and cfg = demo_config]
  from t [where params = "Some [(''filter'', ''ALL'')]"] h u
  have 1: "request_url demo_config ''/projects'' (Some [(''filter'', ''ALL'')])
       = ''https://app.trackingtime.co/api/v4/42/projects?filter=ALL''"
    by simp
  from t [where params = "Some []" and meth = "''GET''" and body = None
      and rt = "answering ''GET'' projects_url (Resolved projects_reply)"] h
  have 2: "apiRequest (answering ''GET'' projects_url (Resolved projects_reply)) demo_config
         ''GET'' ''projects'' (Some []) None
       = apiRequest (answering ''GET'' projects_url (Resolved projects_reply)) demo_config
         ''GET'' ''/projects'' (Some []) None"
    by simp
  from h u 1 2 show ?thesis by blast
qed

subsection \<open>The export tool\<close>

text \<open>
  Claim C3 is that the export tool returns the delimited text of the response. The
  handler of \<open>tt_export_time_entries\<close> calls \<open>apiRequest\<close>, not \<open>rawApiRequest\<close>: on the
  response of the claim (status 200, content type \<open>text/csv\<close>) the tool returns an error
  result, while \<open>rawApiRequest\<close> on the same request returns the text.
\<close>

theorem export_uses_envelope_path:
  "tt_export_time_entries (answering ''GET'' export_url (Resolved csv_response)) demo_config export_comma
     = Inr \<lparr>content_text =
              ''TrackingTime API error (200): TrackingTime returned HTTP 200 with non-JSON response. '' @
              ''The service may be temporarily unavailable.'',
            isError = True\<rparr>
   \<and> rawApiRequest (answering ''GET'' export_url (Resolved csv_response)) demo_config
       ''GET'' ''/events/export'' (Some (export_params export_comma))
     = Inr (''id,duration'' @ [CHR 0x0A] @ ''1,3600'')"
proof -
  let ?rt = "answering ''GET'' export_url (Resolved csv_response)"
  have f: "fetch ?rt (request_url demo_config ''/events/export'' (Some (export_params export_comma)))
              (request_options ?rt demo_config ''GET'' None) = Resolved csv_response"
    by (simp add: export_url_eq answering_options)
  have s: "string_of_nat 200 = ''200''" "string_of_int 200 = ''200''"
    by (simp_all add: string_of_int_def string_of_nat.simps)
  have a: "apiRequest ?rt demo_config ''GET'' ''/events/export'' (Some (export_params export_comma)) None
       = Inl (TrackingTimeError 200
               (''TrackingTime returned HTTP 200 with non-JSON response. '' @
                ''The service may be temporarily unavailable.''))"
    unfolding apiRequest_resolved [OF f]
    by (simp add: declares_json_def csv_response_def non_json_message_def s)
  have 1: "tt_export_time_entries ?rt demo_config export_comma
     = Inr \<lparr>content_text =
              ''TrackingTime API error (200): TrackingTime returned HTTP 200 with non-JSON response. '' @
              ''The service may be temporarily unavailable.'',
            isError = True\<rparr>"
    by (simp add: tt_export_time_entries_def a tool_handler_def errorResult_def formatError_def s)
  have 2: "rawApiRequest ?rt demo_config ''GET'' ''/events/export'' (Some (export_params export_comma))
     = Inr (''id,duration'' @ [CHR 0x0A] @ ''1,3600'')"
    unfolding rawApiRequest_resolved [OF f]
    by (simp add: res_ok_def csv_response_def csv_body_def)
  from 1 2 show ?thesis by blast
qed

end
